theory Spec2Isabelle
  imports Main
begin

section \<open>Credential acquisition of the key vault flexvolume (oauth.go)\<close>

text \<open>
  The theory embeds \<^verbatim>\<open>azurekeyvault-flexvolume/oauth.go\<close>. The file has four
  operations with logic: \<^verbatim>\<open>ParseAzureEnvironment\<close>,
  \<^verbatim>\<open>GetServicePrincipalToken\<close>, \<^verbatim>\<open>GetManagementToken\<close> and
  \<^verbatim>\<open>GetKeyvaultToken\<close>. They call into packages that are not part of the
  repository (go-autorest's \<^verbatim>\<open>azure\<close> and \<^verbatim>\<open>adal\<close>,
  \<^verbatim>\<open>net/http\<close>, \<^verbatim>\<open>encoding/json\<close>); every such call is a field of the
  record \<open>lib\<close> below and every operation takes that record as its first argument.
  What the code prints, logs and sends is returned as a list of events next to the result.
\<close>

subsection \<open>Values\<close>

text \<open>A Go \<^verbatim>\<open>error\<close> is its message; \<open>Error\<close> is the method \<^verbatim>\<open>err.Error()\<close>.\<close>

datatype error = Err string

fun Error :: "error \<Rightarrow> string" where
  "Error (Err m) = m"

text \<open>
  A call either returns or panics. Go's two results \<^verbatim>\<open>(p, err)\<close> of a library
  constructor are a sum (\<open>Inl\<close> the error); where the code itself hands back both
  components (\<^verbatim>\<open>return &env, err\<close>, \<^verbatim>\<open>return nil, err\<close>) the model keeps the pair.
\<close>

datatype 'a outcome = Return 'a | Panic string

datatype OAuthGrantType = OAuthGrantTypeServicePrincipal | OAuthGrantTypeDeviceFlow

text \<open>\<^verbatim>\<open>azure.Environment\<close>, restricted to the three fields that oauth.go reads.\<close>

record Environment =
  ActiveDirectoryEndpoint :: string
  ResourceManagerEndpoint :: string
  KeyVaultEndpoint :: string

text \<open>\<^verbatim>\<open>adal.Token\<close>; the \<^verbatim>\<open>json.Number\<close> fields are strings in Go as well.\<close>

record Token =
  AccessToken :: string
  RefreshToken :: string
  ExpiresIn :: string
  ExpiresOn :: string
  NotBefore :: string
  Resource :: string
  Type :: string

record NMIResponse =
  Token :: Token
  ClientID :: string

text \<open>
  \<^verbatim>\<open>http.Request\<close> and \<^verbatim>\<open>http.Response\<close>, as far as the code touches them.
  \<open>Body\<close> is what \<^verbatim>\<open>ioutil.ReadAll(resp.Body)\<close> yields.
\<close>

record Request =
  Method :: string
  URL :: string
  Header :: "(string \<times> string) list"

record Response =
  StatusCode :: int
  Body :: "error + string"

text \<open>\<^verbatim>\<open>autorest.NewBearerAuthorizer\<close> only stores the token; it cannot fail.\<close>

datatype 'spt Authorizer = NewBearerAuthorizer 'spt

text \<open>
  Effects, in program order: a \<^verbatim>\<open>glog.V(n).Infoln\<close> call, the outbound
  \<^verbatim>\<open>client.Do(req)\<close>, a \<^verbatim>\<open>fmt.Printf\<close> to standard output and the deferred
  \<^verbatim>\<open>resp.Body.Close()\<close>.
\<close>

datatype event = Glog nat string | HttpDo Request | Stdout string | BodyClose

subsection \<open>The packages the code calls\<close>

text \<open>
  \<open>'cfg\<close> stands for \<^verbatim>\<open>adal.OAuthConfig\<close> and \<open>'spt\<close> for
  \<^verbatim>\<open>adal.ServicePrincipalToken\<close>. \<open>EnvironmentFromName\<close> returns an environment
  by value together with an error, as in Go. \<open>NewRequest m u\<close> is
  \<^verbatim>\<open>http.NewRequest(m, u, nil)\<close>, \<open>Do\<close> is \<^verbatim>\<open>(&http.Client{}).Do\<close>.
  \<open>Unmarshal b\<close> is \<^verbatim>\<open>json.Unmarshal(b, &nmiResp)\<close>: the code passes the address of
  the pointer \<^verbatim>\<open>nmiResp\<close>, so a successful decoding leaves either a response or (for
  the JSON literal \<^verbatim>\<open>null\<close>) the nil pointer, which is \<open>None\<close>.
\<close>

record ('cfg, 'spt) lib =
  PublicCloud :: Environment
  EnvironmentFromName :: "string \<Rightarrow> Environment \<times> error option"
  NewOAuthConfig :: "string \<Rightarrow> string \<Rightarrow> error + 'cfg"
  NewServicePrincipalToken :: "'cfg \<Rightarrow> string \<Rightarrow> string \<Rightarrow> string \<Rightarrow> error + 'spt"
  NewServicePrincipalTokenFromManualToken :: "'cfg \<Rightarrow> string \<Rightarrow> string \<Rightarrow> Token \<Rightarrow> error + 'spt"
  NewRequest :: "string \<Rightarrow> string \<Rightarrow> error + Request"
  Do :: "Request \<Rightarrow> error + Response"
  Unmarshal :: "string \<Rightarrow> error + NMIResponse option"

subsection \<open>Constants and formatting\<close>

definition nmiendpoint :: string where
  "nmiendpoint = ''http://localhost:2579/host/token/''"

definition podnameheader :: string where
  "podnameheader = ''podname''"

definition podnsheader :: string where
  "podnsheader = ''podns''"

definition StatusOK :: int where
  "StatusOK = 200"

text \<open>The verb \<^verbatim>\<open>%d\<close> of \<^verbatim>\<open>fmt\<close> on an \<^verbatim>\<open>int\<close>: decimal, with a sign when negative.\<close>

definition digit :: "nat \<Rightarrow> char" where
  "digit n = char_of (48 + n)"

fun decimal :: "nat \<Rightarrow> string" where
  "decimal n = (if n < 10 then [digit n] else decimal (n div 10) @ [digit (n mod 10)])"

declare decimal.simps [simp del]

definition fmt_d :: "int \<Rightarrow> string" where
  "fmt_d i = (if i < 0 then CHR ''-'' # decimal (nat (- i)) else decimal (nat i))"

text \<open>\<^verbatim>\<open>req.Header.Add(key, value)\<close> appends an entry (the key kept as written).\<close>

definition HeaderAdd :: "Request \<Rightarrow> string \<Rightarrow> string \<Rightarrow> Request" where
  "HeaderAdd req k v = req\<lparr>Header := Header req @ [(k, v)]\<rparr>"

subsection \<open>The operations\<close>

definition AuthGrantType :: OAuthGrantType where
  "AuthGrantType = OAuthGrantTypeServicePrincipal"

text \<open>\<^verbatim>\<open>ParseAzureEnvironment\<close> (lines 190-199) returns \<^verbatim>\<open>&env, err\<close>: both components.\<close>

definition ParseAzureEnvironment ::
  "('cfg, 'spt) lib \<Rightarrow> string \<Rightarrow> Environment \<times> error option" where
  "ParseAzureEnvironment w cloudName =
     (if cloudName = [] then (PublicCloud w, None)
      else EnvironmentFromName w cloudName)"

text \<open>
  \<^verbatim>\<open>GetServicePrincipalToken\<close> (lines 122-187). The test \<^verbatim>\<open>&token == nil\<close> of
  line 162 compares the address of a local variable with nil and is never true; it is
  the \<open>False\<close> below. A nil \<^verbatim>\<open>nmiResp\<close> is dereferenced by line 156, which panics;
  the deferred close still runs.
\<close>

definition GetServicePrincipalToken ::
  "('cfg, 'spt) lib \<Rightarrow> string \<Rightarrow> Environment \<Rightarrow> string \<Rightarrow> bool \<Rightarrow> string \<Rightarrow> string
     \<Rightarrow> string \<Rightarrow> string \<Rightarrow> (error + 'spt) outcome \<times> event list" where
  "GetServicePrincipalToken w tenantId env resource useIntegratedIdentity aADClientSecret
       aADClientID podname podns =
     (case NewOAuthConfig w (ActiveDirectoryEndpoint env) tenantId of
        Inl err \<Rightarrow> (Return (Inl (Err (''creating the OAuth config: '' @ Error err))), [])
      | Inr oauthConfig \<Rightarrow>
          if useIntegratedIdentity then
            (let info = Glog 0 ''azure: using managed identity extension to retrieve access token'';
                 endpoint = nmiendpoint @ ''?resource='' @ resource
             in case NewRequest w ''GET'' endpoint of
                  Inl err \<Rightarrow> (Return (Inl err), [info])
                | Inr req0 \<Rightarrow>
                    (let req = HeaderAdd (HeaderAdd req0 podnsheader podns) podnameheader podname
                     in case Do w req of
                          Inl err \<Rightarrow> (Return (Inl err), [info, HttpDo req])
                        | Inr resp \<Rightarrow>
                            if StatusCode resp = StatusOK then
                              (case Body resp of
                                 Inl err \<Rightarrow> (Return (Inl err), [info, HttpDo req, BodyClose])
                               | Inr bodyBytes \<Rightarrow>
                                   (case Unmarshal w bodyBytes of
                                      Inl err \<Rightarrow> (Return (Inl err), [info, HttpDo req, BodyClose])
                                    | Inr None \<Rightarrow>
                                        (Panic ''runtime error: invalid memory address or nil pointer dereference'',
                                         [info, HttpDo req, BodyClose])
                                    | Inr (Some nmiResp) \<Rightarrow>
                                        (let out =
                                           [Stdout ([CHR 0x0A] @ '' accesstoken: '' @ AccessToken (Token nmiResp) @ [CHR 0x0A]),
                                            Stdout ([CHR 0x0A] @ '' clientid: '' @ ClientID nmiResp @ [CHR 0x0A])];
                                             token = Token nmiResp;
                                             clientID = ClientID nmiResp
                                         in if False \<or> clientID = [] then
                                              (Return (Inl (Err ''nmi did not return expected values in response: token and clientid'')),
                                               [info, HttpDo req] @ out @ [BodyClose])
                                            else
                                              (case NewServicePrincipalTokenFromManualToken w oauthConfig clientID resource token of
                                                 Inl err \<Rightarrow> (Return (Inl err), [info, HttpDo req] @ out @ [BodyClose])
                                               | Inr spt \<Rightarrow> (Return (Inr spt), [info, HttpDo req] @ out @ [BodyClose])))))
                            else
                              (Return (Inl (Err (''nmi response failed with status code: '' @ fmt_d (StatusCode resp)))),
                               [info, HttpDo req, BodyClose])))
          else if length aADClientSecret > 0 then
            (Return (NewServicePrincipalToken w oauthConfig aADClientID aADClientSecret resource),
             [Glog 2 ''azure: using client_id+client_secret to retrieve access token''])
          else
            (Return (Inl (Err (''No credentials provided for AAD application '' @ aADClientID))), []))"

text \<open>
  \<^verbatim>\<open>GetManagementToken\<close> (lines 83-98). The result is Go's pair
  \<^verbatim>\<open>(authorizer, err)\<close>, \<open>None\<close> for nil. A panic of the callee unwinds through
  the caller.
\<close>

definition GetManagementToken ::
  "('cfg, 'spt) lib \<Rightarrow> OAuthGrantType \<Rightarrow> string \<Rightarrow> string \<Rightarrow> bool \<Rightarrow> string \<Rightarrow> string
     \<Rightarrow> string \<Rightarrow> string \<Rightarrow> ('spt Authorizer option \<times> error option) outcome \<times> event list" where
  "GetManagementToken w grantType cloudName tenantId useIntegratedIdentity aADClientSecret
       aADClientID podname podns =
     (case ParseAzureEnvironment w cloudName of
        (env, Some err) \<Rightarrow> (Return (None, Some err), [])
      | (env, None) \<Rightarrow>
          (let rmEndPoint = ResourceManagerEndpoint env
           in case GetServicePrincipalToken w tenantId env rmEndPoint useIntegratedIdentity
                     aADClientSecret aADClientID podname podns of
                (Panic p, evs) \<Rightarrow> (Panic p, evs)
              | (Return (Inl err), evs) \<Rightarrow> (Return (None, Some err), evs)
              | (Return (Inr servicePrincipalToken), evs) \<Rightarrow>
                  (Return (Some (NewBearerAuthorizer servicePrincipalToken), None), evs)))"

text \<open>
  The normalisation of the key vault endpoint, lines 108-110 of
  \<^verbatim>\<open>GetKeyvaultToken\<close>: \<^verbatim>\<open>kvEndPoint[len(kvEndPoint)-1]\<close> is an index
  expression, which panics on the empty string (index -1); otherwise one trailing
  \<^verbatim>\<open>'/'\<close> is cut off by the slice \<^verbatim>\<open>kvEndPoint[:len(kvEndPoint)-1]\<close>.
\<close>

definition stripKvEndPoint :: "string \<Rightarrow> string outcome" where
  "stripKvEndPoint kvEndPoint =
     (if length kvEndPoint = 0 then Panic ''runtime error: index out of range [-1]''
      else if CHR ''/'' = kvEndPoint ! (length kvEndPoint - 1)
           then Return (take (length kvEndPoint - 1) kvEndPoint)
           else Return kvEndPoint)"

text \<open>\<^verbatim>\<open>GetKeyvaultToken\<close> (lines 100-119).\<close>

definition GetKeyvaultToken ::
  "('cfg, 'spt) lib \<Rightarrow> OAuthGrantType \<Rightarrow> string \<Rightarrow> string \<Rightarrow> bool \<Rightarrow> string \<Rightarrow> string
     \<Rightarrow> string \<Rightarrow> string \<Rightarrow> ('spt Authorizer option \<times> error option) outcome \<times> event list" where
  "GetKeyvaultToken w grantType cloudName tenantId useIntegratedIdentity aADClientSecret
       aADClientID podname podns =
     (case ParseAzureEnvironment w cloudName of
        (env, Some err) \<Rightarrow> (Return (None, Some err), [])
      | (env, None) \<Rightarrow>
          (case stripKvEndPoint (KeyVaultEndpoint env) of
             Panic p \<Rightarrow> (Panic p, [])
           | Return kvEndPoint \<Rightarrow>
               (case GetServicePrincipalToken w tenantId env kvEndPoint useIntegratedIdentity
                       aADClientSecret aADClientID podname podns of
                  (Panic p, evs) \<Rightarrow> (Panic p, evs)
                | (Return (Inl err), evs) \<Rightarrow> (Return (None, Some err), evs)
                | (Return (Inr servicePrincipalToken), evs) \<Rightarrow>
                    (Return (Some (NewBearerAuthorizer servicePrincipalToken), None), evs))))"

subsection \<open>Composition of the normalisation with itself\<close>

text \<open>Applying the normalisation of lines 108-110 to its own result; a panic of the first
  application is the result.\<close>

definition stripKvEndPointTwice :: "string \<Rightarrow> string outcome" where
  "stripKvEndPointTwice s =
     (case stripKvEndPoint s of Panic p \<Rightarrow> Panic p | Return r \<Rightarrow> stripKvEndPoint r)"

subsection \<open>The orchestrator in the words of the specification\<close>

text \<open>
  Section 4.4 of the specification describes one orchestrator with four steps: resolve the
  environment from the cloud name and propagate a failure; select the resource URI; select
  the channel by the configuration and acquire a token for that URI; wrap the credential
  or propagate the channel's error. The two definitions below follow those words and are
  compared with the two entry points of the source further down. The normalisation of the
  specification strips exactly one trailing path separator if one is present, on every
  string. The selection of the resource URI is a function of the resolved environment and
  the only parameter of the orchestrator besides the configuration; step 4 is applied to
  whatever the channel returns.
\<close>

definition normalizeEndpoint :: "string \<Rightarrow> string" where
  "normalizeEndpoint endpoint =
     (if endpoint \<noteq> [] \<and> last endpoint = CHR ''/'' then butlast endpoint else endpoint)"

definition wrapCredential :: "error + 'spt \<Rightarrow> 'spt Authorizer option \<times> error option" where
  "wrapCredential r =
     (case r of Inl err \<Rightarrow> (None, Some err)
      | Inr credential \<Rightarrow> (Some (NewBearerAuthorizer credential), None))"

definition acquireAuthorizer ::
  "('cfg, 'spt) lib \<Rightarrow> (Environment \<Rightarrow> string) \<Rightarrow> string \<Rightarrow> string \<Rightarrow> bool \<Rightarrow> string
     \<Rightarrow> string \<Rightarrow> string \<Rightarrow> string \<Rightarrow> ('spt Authorizer option \<times> error option) outcome \<times> event list" where
  "acquireAuthorizer w selectResource cloudName tenantID useDelegatedIdentity clientSecret
       clientID podName podNamespace =
     (case ParseAzureEnvironment w cloudName of
        (env, Some err) \<Rightarrow> (Return (None, Some err), [])
      | (env, None) \<Rightarrow>
          (case GetServicePrincipalToken w tenantID env (selectResource env) useDelegatedIdentity
                  clientSecret clientID podName podNamespace of
             (result, evs) \<Rightarrow> (map_outcome wrapCredential result, evs)))"

subsection \<open>Sample collaborators\<close>

text \<open>
  One concrete behaviour of the packages behind \<open>lib\<close>, used to run the operations on
  explicit inputs. The environments are the public cloud of go-autorest and a table of
  further named environments; an unknown name yields the zero environment and an error, as
  \<^verbatim>\<open>azure.EnvironmentFromName\<close> does. The OAuth configuration is refused for a tenant id
  holding a percent sign (the URL parser behind \<^verbatim>\<open>adal.NewOAuthConfig\<close> rejects an
  invalid escape such as \<^verbatim>\<open>%zz\<close>). The two token constructors record their arguments.
  The broker and the JSON decoder are parameters; the sample decoders answer with a fixed
  value and do not parse the body they are given.
\<close>

datatype sample_spt =
    SecretSPT "string \<times> string" string string string
  | ManualSPT "string \<times> string" string string Token

definition publicCloud :: Environment where
  "publicCloud = \<lparr>ActiveDirectoryEndpoint = ''https://login.microsoftonline.com/'',
     ResourceManagerEndpoint = ''https://management.azure.com/'',
     KeyVaultEndpoint = ''https://vault.azure.net/''\<rparr>"

text \<open>An environment read from a file that names no key vault endpoint.\<close>

definition stackCloud :: Environment where
  "stackCloud = \<lparr>ActiveDirectoryEndpoint = ''https://login.stack.example/'',
     ResourceManagerEndpoint = ''https://management.stack.example/'',
     KeyVaultEndpoint = []\<rparr>"

text \<open>An environment whose management endpoint is its key vault endpoint without the
  trailing separator.\<close>

definition sharedCloud :: Environment where
  "sharedCloud = \<lparr>ActiveDirectoryEndpoint = ''https://login.stack.example/'',
     ResourceManagerEndpoint = ''https://api.stack.example'',
     KeyVaultEndpoint = ''https://api.stack.example/''\<rparr>"

definition zeroEnvironment :: Environment where
  "zeroEnvironment =
     \<lparr>ActiveDirectoryEndpoint = [], ResourceManagerEndpoint = [], KeyVaultEndpoint = []\<rparr>"

definition brokerDown :: "Request \<Rightarrow> error + Response" where
  "brokerDown req = Inl (Err ''dial tcp 127.0.0.1:2579: connect: connection refused'')"

definition brokerReplies :: "int \<Rightarrow> string \<Rightarrow> Request \<Rightarrow> error + Response" where
  "brokerReplies code body req = Inr \<lparr>StatusCode = code, Body = Inr body\<rparr>"

definition decodeFails :: "string \<Rightarrow> error + NMIResponse option" where
  "decodeFails b = Inl (Err ''unexpected end of JSON input'')"

definition decodesNull :: "string \<Rightarrow> error + NMIResponse option" where
  "decodesNull b = Inr None"

definition decodesTo :: "NMIResponse \<Rightarrow> string \<Rightarrow> error + NMIResponse option" where
  "decodesTo r b = Inr (Some r)"

definition bearerToken :: "string \<Rightarrow> Token" where
  "bearerToken a = \<lparr>AccessToken = a, RefreshToken = [], ExpiresIn = ''3600'',
     ExpiresOn = ''1600000000'', NotBefore = ''1599996400'',
     Resource = ''https://vault.azure.net'', Type = ''Bearer''\<rparr>"

definition sampleLib ::
  "(string \<times> Environment) list \<Rightarrow> (Request \<Rightarrow> error + Response)
     \<Rightarrow> (string \<Rightarrow> error + NMIResponse option) \<Rightarrow> (string \<times> string, sample_spt) lib" where
  "sampleLib envs broker decode =
     \<lparr>PublicCloud = publicCloud,
      EnvironmentFromName = (\<lambda>name. case map_of envs name of
          Some env \<Rightarrow> (env, None)
        | None \<Rightarrow> (zeroEnvironment,
            Some (Err (''autorest/azure: There is no cloud environment matching the name '' @ name)))),
      NewOAuthConfig = (\<lambda>ep tenant.
          if CHR ''%'' \<in> set tenant then Inl (Err ''invalid URL escape'') else Inr (ep, tenant)),
      NewServicePrincipalToken = (\<lambda>cfg cid secret res. Inr (SecretSPT cfg cid secret res)),
      NewServicePrincipalTokenFromManualToken = (\<lambda>cfg cid res tok. Inr (ManualSPT cfg cid res tok)),
      NewRequest = (\<lambda>m u. Inr \<lparr>Method = m, URL = u, Header = []\<rparr>),
      Do = broker,
      Unmarshal = decode\<rparr>"

section \<open>Properties\<close>

subsection \<open>Auxiliary facts\<close>


lemma sampleLib_sel [simp]:
  "PublicCloud (sampleLib envs broker decode) = publicCloud"
  "NewOAuthConfig (sampleLib envs broker decode) ep tenant =
     (if CHR ''%'' \<in> set tenant then Inl (Err ''invalid URL escape'') else Inr (ep, tenant))"
  "NewServicePrincipalToken (sampleLib envs broker decode) cfg cid secret res = Inr (SecretSPT cfg cid secret res)"
  "NewServicePrincipalTokenFromManualToken (sampleLib envs broker decode) cfg cid res tok = Inr (ManualSPT cfg cid res tok)"
  "NewRequest (sampleLib envs broker decode) m u = Inr \<lparr>Method = m, URL = u, Header = []\<rparr>"
  "Do (sampleLib envs broker decode) = broker"
  "Unmarshal (sampleLib envs broker decode) = decode"
  by (simp_all add: sampleLib_def)

lemma sampleLib_env:
  "EnvironmentFromName (sampleLib envs broker decode) name =
     (case map_of envs name of
          Some env \<Rightarrow> (env, None)
        | None \<Rightarrow> (zeroEnvironment,
            Some (Err (''autorest/azure: There is no cloud environment matching the name '' @ name))))"
  by (simp add: sampleLib_def)








lemma strip_last:
  "s \<noteq> [] \<Longrightarrow> stripKvEndPoint s = Return (if last s = CHR ''/'' then butlast s else s)"
  by (auto simp: stripKvEndPoint_def last_conv_nth butlast_conv_take)

lemma spt_static_no_secret:
  "GetServicePrincipalToken w t env r False [] a pn ps =
     (case NewOAuthConfig w (ActiveDirectoryEndpoint env) t of
        Inl err \<Rightarrow> (Return (Inl (Err (''creating the OAuth config: '' @ Error err))), [])
      | Inr cfg \<Rightarrow> (Return (Inl (Err (''No credentials provided for AAD application '' @ a))), []))"
  by (simp add: GetServicePrincipalToken_def split: sum.splits)

lemma spt_ok:
  assumes "NewOAuthConfig w (ActiveDirectoryEndpoint env) t = Inr cfg"
    and "NewRequest w ''GET'' (nmiendpoint @ ''?resource='' @ r) = Inr req0"
    and "Do w (HeaderAdd (HeaderAdd req0 podnsheader ps) podnameheader pn) = Inr resp"
    and "StatusCode resp = 200"
    and "Body resp = Inr bodyBytes"
    and "Unmarshal w bodyBytes = Inr (Some nmiResp)"
  shows "GetServicePrincipalToken w t env r True s a pn ps =
           (if ClientID nmiResp = [] then
              Return (Inl (Err ''nmi did not return expected values in response: token and clientid''))
            else Return (NewServicePrincipalTokenFromManualToken w cfg (ClientID nmiResp) r (Token nmiResp)),
            [Glog 0 ''azure: using managed identity extension to retrieve access token'',
             HttpDo (HeaderAdd (HeaderAdd req0 podnsheader ps) podnameheader pn),
             Stdout ([CHR 0x0A] @ '' accesstoken: '' @ AccessToken (Token nmiResp) @ [CHR 0x0A]),
             Stdout ([CHR 0x0A] @ '' clientid: '' @ ClientID nmiResp @ [CHR 0x0A]),
             BodyClose])"
  using assms by (simp add: GetServicePrincipalToken_def Let_def StatusOK_def split: sum.splits)

lemma spt_static_secret:
  assumes "NewOAuthConfig w (ActiveDirectoryEndpoint env) t = Inr cfg" and "s \<noteq> []"
  shows "GetServicePrincipalToken w t env r False s a pn ps =
           (Return (NewServicePrincipalToken w cfg a s r),
            [Glog 2 ''azure: using client_id+client_secret to retrieve access token''])"
  using assms by (simp add: GetServicePrincipalToken_def)

text \<open>A broker body that is the JSON literal \<^verbatim>\<open>null\<close> leaves \<^verbatim>\<open>nmiResp\<close> nil, and
  line 156 dereferences it.\<close>

lemma null_body_panics:
  "fst (GetServicePrincipalToken (sampleLib [] (brokerReplies 200 ''null'') decodesNull)
          ''tenant'' publicCloud ''https://vault.azure.net'' True [] [] ''pod'' ''ns'')
     = Panic ''runtime error: invalid memory address or nil pointer dereference''"
  by (simp add: GetServicePrincipalToken_def Let_def StatusOK_def brokerReplies_def decodesNull_def)

lemma strip_normalize:
  "s \<noteq> [] \<Longrightarrow> stripKvEndPoint s = Return (normalizeEndpoint s)"
  by (simp add: strip_last normalizeEndpoint_def)

lemma management_is_orchestrator:
  "GetManagementToken w g c t u s a pn ps =
     acquireAuthorizer w ResourceManagerEndpoint c t u s a pn ps"
  by (auto simp: GetManagementToken_def acquireAuthorizer_def wrapCredential_def Let_def
      split: prod.splits option.splits outcome.splits sum.splits)

lemma keyvault_is_orchestrator:
  assumes "ParseAzureEnvironment w c = (env, None)" and "KeyVaultEndpoint env \<noteq> []"
  shows "GetKeyvaultToken w g c t u s a pn ps =
     acquireAuthorizer w (\<lambda>e. normalizeEndpoint (KeyVaultEndpoint e)) c t u s a pn ps"
  using assms
  by (auto simp: GetKeyvaultToken_def acquireAuthorizer_def wrapCredential_def strip_normalize
      split: prod.splits option.splits outcome.splits sum.splits)

lemma entry_points_resolution_error:
  assumes "ParseAzureEnvironment w c = (env, Some err)"
  shows "GetKeyvaultToken w g c t u s a pn ps = (Return (None, Some err), [])"
    and "GetManagementToken w g c t u s a pn ps = (Return (None, Some err), [])"
  using assms by (simp_all add: GetKeyvaultToken_def GetManagementToken_def)

lemma orchestrator_static:
  assumes "ParseAzureEnvironment w c = (env, None)"
    and "NewOAuthConfig w (ActiveDirectoryEndpoint env) t = Inr cfg" and "s \<noteq> []"
  shows "fst (acquireAuthorizer w sel c t False s a pn ps) =
           Return (wrapCredential (NewServicePrincipalToken w cfg a s (sel env)))"
  using assms by (simp add: acquireAuthorizer_def spt_static_secret)

lemma orchestrator_same_resource:
  assumes "ParseAzureEnvironment w c = (env, None)" and "sel1 env = sel2 env"
  shows "acquireAuthorizer w sel1 c t u s a pn ps = acquireAuthorizer w sel2 c t u s a pn ps"
  using assms by (simp add: acquireAuthorizer_def)

subsection \<open>Claims\<close>



text \<open>
  C10. The grant type is never read: both entry points return the same result and the same
  effects for any two grant types, and \<^verbatim>\<open>AuthGrantType\<close> is the service-principal
  grant type.
\<close>

theorem grant_type_is_dead_input:
  "GetManagementToken w g1 c t u s a pn ps = GetManagementToken w g2 c t u s a pn ps
   \<and> GetKeyvaultToken w g1 c t u s a pn ps = GetKeyvaultToken w g2 c t u s a pn ps
   \<and> AuthGrantType = OAuthGrantTypeServicePrincipal"
  by (simp add: GetManagementToken_def GetKeyvaultToken_def AuthGrantType_def)

text \<open>
  C3. The empty cloud name resolves to the public cloud without an error. A non-empty name
  that \<^verbatim>\<open>azure.EnvironmentFromName\<close> does not know (it answers with an error) makes
  the resolution fail with that error.
\<close>

theorem environment_resolution:
  "ParseAzureEnvironment w [] = (PublicCloud w, None)
   \<and> (\<forall>c env e. c \<noteq> [] \<longrightarrow> EnvironmentFromName w c = (env, Some e)
         \<longrightarrow> ParseAzureEnvironment w c = (env, Some e))"
  by (simp add: ParseAzureEnvironment_def)

theorem environment_resolution_witness:
  "ParseAzureEnvironment (sampleLib [] brokerDown decodeFails) [] = (publicCloud, None)
   \<and> ParseAzureEnvironment (sampleLib [] brokerDown decodeFails) ''unknown-xyz''
       = (zeroEnvironment,
          Some (Err ''autorest/azure: There is no cloud environment matching the name unknown-xyz''))"
proof -
  have n: "''unknown-xyz'' \<noteq> []" by simp
  have e: "EnvironmentFromName (sampleLib [] brokerDown decodeFails) ''unknown-xyz''
       = (zeroEnvironment,
          Some (Err ''autorest/azure: There is no cloud environment matching the name unknown-xyz''))"
    by (simp add: sampleLib_env)
  show ?thesis
    using environment_resolution [of "sampleLib [] brokerDown decodeFails"] n e by simp
qed

text \<open>
  C4, as stated: for every endpoint, normalising twice gives what normalising once gives.
  The code cuts one separator per application, so an endpoint with two trailing separators
  loses the second one only in the second application.
\<close>

theorem strip_one_separator_counterexample:
  "stripKvEndPointTwice ''https://vault.example.com//'' \<noteq> stripKvEndPoint ''https://vault.example.com//''"
  by (simp add: stripKvEndPointTwice_def stripKvEndPoint_def)

text \<open>
  C4, amended. The normalisation cuts exactly one trailing separator; it leaves a non-empty
  endpoint without a trailing separator unchanged; and on such an endpoint, with or without
  one separator appended, a second application changes nothing.
\<close>

theorem strip_one_separator:
  "stripKvEndPoint (t @ ''/'') = Return t
   \<and> (s \<noteq> [] \<and> last s \<noteq> CHR ''/'' \<longrightarrow>
        stripKvEndPoint s = Return s
        \<and> stripKvEndPointTwice s = stripKvEndPoint s
        \<and> stripKvEndPointTwice (s @ ''/'') = stripKvEndPoint (s @ ''/''))"
  by (simp add: strip_last stripKvEndPointTwice_def)

theorem strip_one_separator_witness:
  "stripKvEndPoint ''https://vault.example.com/'' = Return ''https://vault.example.com''
   \<and> stripKvEndPoint ''https://vault.example.com'' = Return ''https://vault.example.com''
   \<and> stripKvEndPointTwice ''https://vault.example.com/'' = Return ''https://vault.example.com''"
proof -
  have h: "''https://vault.example.com'' \<noteq> [] \<and> last ''https://vault.example.com'' \<noteq> CHR ''/''"
    by simp
  show ?thesis
    using strip_one_separator [of "''https://vault.example.com''" "''https://vault.example.com''"] h
    by simp
qed

text \<open>
  C1, as stated: every call with \<^verbatim>\<open>useIntegratedIdentity = false\<close> and an empty client
  secret fails with the error that names the client id. The OAuth configuration is built
  first (lines 123-126); when that fails, its error is what the call returns.
\<close>

theorem missing_credential_counterexample:
  "fst (GetServicePrincipalToken (sampleLib [] brokerDown decodeFails) ''%zz'' publicCloud
          ''https://management.azure.com/'' False [] ''app'' ''pod'' ''ns'')
     \<noteq> Return (Inl (Err (''No credentials provided for AAD application '' @ ''app'')))"
  by (simp add: spt_static_no_secret)

text \<open>
  C1, amended. A call with \<^verbatim>\<open>useIntegratedIdentity = false\<close> and an empty client secret
  has no effect at all (no log line, no network call). When the OAuth configuration can be
  built the call fails with ``No credentials provided for AAD application'' followed by the
  client id; when it cannot, the call fails with ``creating the OAuth config:'' followed by
  the message of that failure.
\<close>

theorem missing_credential:
  "snd (GetServicePrincipalToken w t env r False [] a pn ps) = []
   \<and> (\<forall>cfg. NewOAuthConfig w (ActiveDirectoryEndpoint env) t = Inr cfg \<longrightarrow>
         fst (GetServicePrincipalToken w t env r False [] a pn ps) =
           Return (Inl (Err (''No credentials provided for AAD application '' @ a))))
   \<and> (\<forall>err. NewOAuthConfig w (ActiveDirectoryEndpoint env) t = Inl err \<longrightarrow>
         fst (GetServicePrincipalToken w t env r False [] a pn ps) =
           Return (Inl (Err (''creating the OAuth config: '' @ Error err))))"
  by (simp add: spt_static_no_secret split: sum.splits)

theorem missing_credential_witness:
  "GetServicePrincipalToken (sampleLib [] brokerDown decodeFails) ''tenant'' publicCloud
      ''https://management.azure.com/'' False [] ''app'' ''pod'' ''ns''
     = (Return (Inl (Err ''No credentials provided for AAD application app'')), [])
   \<and> GetServicePrincipalToken (sampleLib [] brokerDown decodeFails) ''%zz'' publicCloud
      ''https://management.azure.com/'' False [] ''app'' ''pod'' ''ns''
     = (Return (Inl (Err ''creating the OAuth config: invalid URL escape'')), [])"
proof -
  let ?w = "sampleLib [] brokerDown decodeFails"
  have a: "NewOAuthConfig ?w (ActiveDirectoryEndpoint publicCloud) ''tenant''
             = Inr (ActiveDirectoryEndpoint publicCloud, ''tenant'')"
    by simp
  have b: "NewOAuthConfig ?w (ActiveDirectoryEndpoint publicCloud) ''%zz'' = Inl (Err ''invalid URL escape'')"
    by simp
  show ?thesis
    using missing_credential [of ?w "''tenant''" publicCloud "''https://management.azure.com/''" "''app''" "''pod''" "''ns''"]
      missing_credential [of ?w "''%zz''" publicCloud "''https://management.azure.com/''" "''app''" "''pod''" "''ns''"]
      a b
    by (simp add: prod_eq_iff)
qed

text \<open>
  C2. The claim asks a 200 answer with an empty access token to be refused as incomplete.
  The code reaches the token constructor with it: the only test on the token is
  \<^verbatim>\<open>&token == nil\<close>, which is never true. Here the broker answers 200 with client id
  \<^verbatim>\<open>abc\<close> and a token whose access token is empty, and the acquisition returns a
  credential.
\<close>

theorem empty_access_token_accepted:
  "fst (GetServicePrincipalToken
          (sampleLib [] (brokerReplies 200 ''{}'') (decodesTo \<lparr>Token = bearerToken [], ClientID = ''abc''\<rparr>))
          ''tenant'' publicCloud ''https://vault.azure.net'' True [] [] ''pod'' ''ns'')
     = Return (Inr (ManualSPT (''https://login.microsoftonline.com/'', ''tenant'') ''abc''
                      ''https://vault.azure.net'' (bearerToken [])))
   \<and> AccessToken (bearerToken []) = []"
  by (simp add: GetServicePrincipalToken_def Let_def StatusOK_def brokerReplies_def decodesTo_def
      publicCloud_def bearerToken_def)

text \<open>
  C6. When the broker answers 200, its body decodes to a response with client id
  \<^verbatim>\<open>abc\<close>, and \<^verbatim>\<open>adal.NewServicePrincipalTokenFromManualToken\<close> accepts the client
  id, the resource and the token of that response, the acquisition returns the credential
  that this constructor built from them.
\<close>

theorem delegated_success:
  assumes "NewOAuthConfig w (ActiveDirectoryEndpoint env) t = Inr cfg"
    and "NewRequest w ''GET'' (nmiendpoint @ ''?resource='' @ r) = Inr req0"
    and "Do w (HeaderAdd (HeaderAdd req0 podnsheader ps) podnameheader pn) = Inr resp"
    and "StatusCode resp = 200"
    and "Body resp = Inr bodyBytes"
    and "Unmarshal w bodyBytes = Inr (Some nmiResp)"
    and "ClientID nmiResp = ''abc''"
    and "NewServicePrincipalTokenFromManualToken w cfg ''abc'' r (Token nmiResp) = Inr spt"
  shows "fst (GetServicePrincipalToken w t env r True s a pn ps) = Return (Inr spt)"
  using spt_ok [OF assms(1-6)] assms(7,8) by simp

theorem delegated_success_witness:
  "fst (GetServicePrincipalToken
          (sampleLib [] (brokerReplies 200 ''{}'') (decodesTo \<lparr>Token = bearerToken ''eyJ0'', ClientID = ''abc''\<rparr>))
          ''tenant'' publicCloud ''https://vault.azure.net'' True [] [] ''pod'' ''ns'')
     = Return (Inr (ManualSPT (''https://login.microsoftonline.com/'', ''tenant'') ''abc''
                      ''https://vault.azure.net'' (bearerToken ''eyJ0'')))"
proof -
  let ?n = "\<lparr>Token = bearerToken ''eyJ0'', ClientID = ''abc''\<rparr>"
  let ?w = "sampleLib [] (brokerReplies 200 ''{}'') (decodesTo ?n)"
  let ?req0 = "\<lparr>Method = ''GET'', URL = nmiendpoint @ ''?resource='' @ ''https://vault.azure.net'', Header = []\<rparr>"
  let ?resp = "\<lparr>StatusCode = 200, Body = Inr ''{}''\<rparr>"
  let ?cfg = "(''https://login.microsoftonline.com/'', ''tenant'')"
  have 1: "NewOAuthConfig ?w (ActiveDirectoryEndpoint publicCloud) ''tenant'' = Inr ?cfg"
    by (simp add: publicCloud_def)
  have 2: "NewRequest ?w ''GET'' (nmiendpoint @ ''?resource='' @ ''https://vault.azure.net'') = Inr ?req0"
    by simp
  have 3: "Do ?w (HeaderAdd (HeaderAdd ?req0 podnsheader ''ns'') podnameheader ''pod'') = Inr ?resp"
    by (simp add: brokerReplies_def)
  have 4: "StatusCode ?resp = 200" by simp
  have 5: "Body ?resp = Inr ''{}''" by simp
  have 6: "Unmarshal ?w ''{}'' = Inr (Some ?n)" by (simp add: decodesTo_def)
  have 7: "ClientID ?n = ''abc''" by simp
  have 8: "NewServicePrincipalTokenFromManualToken ?w ?cfg ''abc'' ''https://vault.azure.net'' (Token ?n)
             = Inr (ManualSPT ?cfg ''abc'' ''https://vault.azure.net'' (bearerToken ''eyJ0''))"
    by simp
  show ?thesis
    by (rule delegated_success [OF 1 2 3 4 5 6 7 8])
qed

text \<open>
  C7, as stated: for every configuration the two entry points differ in the resource URI
  only, and with the same client secret they produce authorizers built from two distinct
  resource URIs. In an environment whose management endpoint is the key vault endpoint
  without its trailing separator both entry points pass the same resource URI and return
  the same authorizer; and in an environment without a key vault endpoint the first entry
  point returns an authorizer where the second one does not return.
\<close>

theorem entry_points_differ_in_resource_only_counterexample:
  "fst (GetManagementToken (sampleLib [(''AZURESTACKCLOUD'', sharedCloud)] brokerDown decodeFails)
          OAuthGrantTypeServicePrincipal ''AZURESTACKCLOUD'' ''tenant'' False ''secret'' ''app'' ''pod'' ''ns'')
     = Return (Some (NewBearerAuthorizer (SecretSPT (''https://login.stack.example/'', ''tenant'')
                 ''app'' ''secret'' ''https://api.stack.example'')), None)
   \<and> fst (GetKeyvaultToken (sampleLib [(''AZURESTACKCLOUD'', sharedCloud)] brokerDown decodeFails)
          OAuthGrantTypeServicePrincipal ''AZURESTACKCLOUD'' ''tenant'' False ''secret'' ''app'' ''pod'' ''ns'')
     = Return (Some (NewBearerAuthorizer (SecretSPT (''https://login.stack.example/'', ''tenant'')
                 ''app'' ''secret'' ''https://api.stack.example'')), None)
   \<and> fst (GetManagementToken (sampleLib [(''AZURESTACKCLOUD'', stackCloud)] brokerDown decodeFails)
          OAuthGrantTypeServicePrincipal ''AZURESTACKCLOUD'' ''tenant'' False ''secret'' ''app'' ''pod'' ''ns'')
     = Return (Some (NewBearerAuthorizer (SecretSPT (''https://login.stack.example/'', ''tenant'')
                 ''app'' ''secret'' ''https://management.stack.example/'')), None)
   \<and> fst (GetKeyvaultToken (sampleLib [(''AZURESTACKCLOUD'', stackCloud)] brokerDown decodeFails)
          OAuthGrantTypeServicePrincipal ''AZURESTACKCLOUD'' ''tenant'' False ''secret'' ''app'' ''pod'' ''ns'')
     = Panic ''runtime error: index out of range [-1]''"
  by (simp add: GetManagementToken_def GetKeyvaultToken_def ParseAzureEnvironment_def sampleLib_env
      sharedCloud_def stackCloud_def stripKvEndPoint_def spt_static_secret)

text \<open>
  C7, amended. The management entry point is the orchestrator of the specification with the
  management endpoint as resource URI. When the cloud name does not resolve, both entry
  points return the same error. When it resolves to an environment with a non-empty key
  vault endpoint, the key vault entry point is the same orchestrator with the normalised
  key vault endpoint as resource URI; the two entry points return the same result and
  effects when the two resource URIs coincide; and with a client secret each hands its
  own resource URI to \<^verbatim>\<open>adal.NewServicePrincipalToken\<close> and wraps the result.
\<close>

theorem entry_points_differ_in_resource_only:
  "GetManagementToken w g c t u s a pn ps =
     acquireAuthorizer w ResourceManagerEndpoint c t u s a pn ps
   \<and> (\<forall>env err. ParseAzureEnvironment w c = (env, Some err) \<longrightarrow>
         GetKeyvaultToken w g c t u s a pn ps = GetManagementToken w g c t u s a pn ps)
   \<and> (\<forall>env. ParseAzureEnvironment w c = (env, None) \<longrightarrow> KeyVaultEndpoint env \<noteq> [] \<longrightarrow>
         GetKeyvaultToken w g c t u s a pn ps =
           acquireAuthorizer w (\<lambda>e. normalizeEndpoint (KeyVaultEndpoint e)) c t u s a pn ps
         \<and> (ResourceManagerEndpoint env = normalizeEndpoint (KeyVaultEndpoint env) \<longrightarrow>
              GetKeyvaultToken w g c t u s a pn ps = GetManagementToken w g c t u s a pn ps)
         \<and> (\<forall>cfg. NewOAuthConfig w (ActiveDirectoryEndpoint env) t = Inr cfg \<longrightarrow> s \<noteq> [] \<longrightarrow>
              fst (GetManagementToken w g c t False s a pn ps) =
                Return (wrapCredential (NewServicePrincipalToken w cfg a s (ResourceManagerEndpoint env)))
              \<and> fst (GetKeyvaultToken w g c t False s a pn ps) =
                Return (wrapCredential (NewServicePrincipalToken w cfg a s
                          (normalizeEndpoint (KeyVaultEndpoint env))))))"
proof (intro conjI allI impI)
  show "GetManagementToken w g c t u s a pn ps =
     acquireAuthorizer w ResourceManagerEndpoint c t u s a pn ps"
    by (rule management_is_orchestrator)
next
  fix env err assume "ParseAzureEnvironment w c = (env, Some err)"
  then show "GetKeyvaultToken w g c t u s a pn ps = GetManagementToken w g c t u s a pn ps"
    by (simp add: entry_points_resolution_error)
next
  fix env assume e: "ParseAzureEnvironment w c = (env, None)" and k: "KeyVaultEndpoint env \<noteq> []"
  show "GetKeyvaultToken w g c t u s a pn ps =
      acquireAuthorizer w (\<lambda>e. normalizeEndpoint (KeyVaultEndpoint e)) c t u s a pn ps"
    by (rule keyvault_is_orchestrator [OF e k])
next
  fix env assume e: "ParseAzureEnvironment w c = (env, None)" and k: "KeyVaultEndpoint env \<noteq> []"
    and r: "ResourceManagerEndpoint env = normalizeEndpoint (KeyVaultEndpoint env)"
  show "GetKeyvaultToken w g c t u s a pn ps = GetManagementToken w g c t u s a pn ps"
    unfolding keyvault_is_orchestrator [OF e k] management_is_orchestrator
    by (rule orchestrator_same_resource [OF e]) (simp add: r)
next
  fix env cfg assume e: "ParseAzureEnvironment w c = (env, None)"
    and o: "NewOAuthConfig w (ActiveDirectoryEndpoint env) t = Inr cfg" and s: "s \<noteq> []"
  show "fst (GetManagementToken w g c t False s a pn ps) =
      Return (wrapCredential (NewServicePrincipalToken w cfg a s (ResourceManagerEndpoint env)))"
    unfolding management_is_orchestrator by (rule orchestrator_static [OF e o s])
next
  fix env cfg assume e: "ParseAzureEnvironment w c = (env, None)" and k: "KeyVaultEndpoint env \<noteq> []"
    and o: "NewOAuthConfig w (ActiveDirectoryEndpoint env) t = Inr cfg" and s: "s \<noteq> []"
  show "fst (GetKeyvaultToken w g c t False s a pn ps) =
      Return (wrapCredential (NewServicePrincipalToken w cfg a s (normalizeEndpoint (KeyVaultEndpoint env))))"
    unfolding keyvault_is_orchestrator [OF e k] by (rule orchestrator_static [OF e o s])
qed

theorem entry_points_differ_in_resource_only_witness:
  "fst (GetManagementToken (sampleLib [] brokerDown decodeFails) OAuthGrantTypeServicePrincipal []
          ''tenant'' False ''secret'' ''app'' ''pod'' ''ns'')
     = Return (Some (NewBearerAuthorizer (SecretSPT (''https://login.microsoftonline.com/'', ''tenant'')
                 ''app'' ''secret'' ''https://management.azure.com/'')), None)
   \<and> fst (GetKeyvaultToken (sampleLib [] brokerDown decodeFails) OAuthGrantTypeServicePrincipal []
          ''tenant'' False ''secret'' ''app'' ''pod'' ''ns'')
     = Return (Some (NewBearerAuthorizer (SecretSPT (''https://login.microsoftonline.com/'', ''tenant'')
                 ''app'' ''secret'' ''https://vault.azure.net'')), None)
   \<and> GetKeyvaultToken (sampleLib [(''AZURESTACKCLOUD'', sharedCloud)] brokerDown decodeFails)
          OAuthGrantTypeServicePrincipal ''AZURESTACKCLOUD'' ''tenant'' False ''secret'' ''app'' ''pod'' ''ns''
     = GetManagementToken (sampleLib [(''AZURESTACKCLOUD'', sharedCloud)] brokerDown decodeFails)
          OAuthGrantTypeServicePrincipal ''AZURESTACKCLOUD'' ''tenant'' False ''secret'' ''app'' ''pod'' ''ns''
   \<and> GetKeyvaultToken (sampleLib [] brokerDown decodeFails) OAuthGrantTypeServicePrincipal
          ''unknown-xyz'' ''tenant'' False ''secret'' ''app'' ''pod'' ''ns''
     = GetManagementToken (sampleLib [] brokerDown decodeFails) OAuthGrantTypeServicePrincipal
          ''unknown-xyz'' ''tenant'' False ''secret'' ''app'' ''pod'' ''ns''"
proof -
  let ?w = "sampleLib [] brokerDown decodeFails"
  let ?v = "sampleLib [(''AZURESTACKCLOUD'', sharedCloud)] brokerDown decodeFails"
  let ?cfg = "(''https://login.microsoftonline.com/'', ''tenant'')"
  have 1: "ParseAzureEnvironment ?w [] = (publicCloud, None)"
    by (simp add: ParseAzureEnvironment_def)
  have 2: "KeyVaultEndpoint publicCloud \<noteq> []"
    by (simp add: publicCloud_def)
  have 3: "NewOAuthConfig ?w (ActiveDirectoryEndpoint publicCloud) ''tenant'' = Inr ?cfg"
    by (simp add: publicCloud_def)
  have 4: "''secret'' \<noteq> []" by simp
  have 5: "ParseAzureEnvironment ?v ''AZURESTACKCLOUD'' = (sharedCloud, None)"
    by (simp add: ParseAzureEnvironment_def sampleLib_env)
  have 6: "KeyVaultEndpoint sharedCloud \<noteq> []"
    by (simp add: sharedCloud_def)
  have 7: "ResourceManagerEndpoint sharedCloud = normalizeEndpoint (KeyVaultEndpoint sharedCloud)"
    by (simp add: sharedCloud_def normalizeEndpoint_def)
  have 8: "ParseAzureEnvironment ?w ''unknown-xyz'' = (zeroEnvironment,
      Some (Err ''autorest/azure: There is no cloud environment matching the name unknown-xyz''))"
    by (simp add: ParseAzureEnvironment_def sampleLib_env)
  note A = entry_points_differ_in_resource_only [of ?w OAuthGrantTypeServicePrincipal "[]" "''tenant''"
        False "''secret''" "''app''" "''pod''" "''ns''", THEN conjunct2, THEN conjunct2,
        rule_format, OF 1 2, THEN conjunct2, THEN conjunct2, rule_format, OF 3 4]
  note B = entry_points_differ_in_resource_only [of ?v OAuthGrantTypeServicePrincipal "''AZURESTACKCLOUD''"
        "''tenant''" False "''secret''" "''app''" "''pod''" "''ns''", THEN conjunct2, THEN conjunct2,
        rule_format, OF 5 6, THEN conjunct2, THEN conjunct1, rule_format, OF 7]
  note C = entry_points_differ_in_resource_only [of ?w OAuthGrantTypeServicePrincipal "''unknown-xyz''"
        "''tenant''" False "''secret''" "''app''" "''pod''" "''ns''", THEN conjunct2, THEN conjunct1,
        rule_format, OF 8]
  show ?thesis
    using A B C by (simp add: wrapCredential_def publicCloud_def normalizeEndpoint_def)
qed

text \<open>
  C8. The claim excludes a panic on every input, an empty key vault endpoint included.
  \<^verbatim>\<open>GetKeyvaultToken\<close> indexes the last byte of the endpoint before anything else, which
  panics on the empty string.
\<close>

theorem keyvault_empty_endpoint_panics:
  "fst (GetKeyvaultToken (sampleLib [(''AZURESTACKCLOUD'', stackCloud)] brokerDown decodeFails)
          OAuthGrantTypeServicePrincipal ''AZURESTACKCLOUD'' ''tenant'' False ''secret'' ''app'' ''pod'' ''ns'')
     = Panic ''runtime error: index out of range [-1]''
   \<and> stripKvEndPoint [] = Panic ''runtime error: index out of range [-1]''"
  by (simp add: GetKeyvaultToken_def ParseAzureEnvironment_def sampleLib_env stackCloud_def
      stripKvEndPoint_def)

text \<open>
  C9. The claim excludes the access token from every diagnostic output. Lines 156-157 print
  the access token and the client id to standard output (under the comment ``TODO: remove
  verbose logging'').
\<close>

theorem access_token_printed:
  "Stdout ([CHR 0x0A] @ '' accesstoken: s3cr3t'' @ [CHR 0x0A]) \<in> set (snd (GetServicePrincipalToken
          (sampleLib [] (brokerReplies 200 ''{}'') (decodesTo \<lparr>Token = bearerToken ''s3cr3t'', ClientID = ''abc''\<rparr>))
          ''tenant'' publicCloud ''https://vault.azure.net'' True [] [] ''pod'' ''ns''))"
  by (simp add: GetServicePrincipalToken_def Let_def StatusOK_def brokerReplies_def decodesTo_def
      publicCloud_def bearerToken_def)

end
